theory Spec2Isabelle
  imports Main "HOL-Library.Sublist"
begin

section \<open>Values and text\<close>

text \<open>
  The tool receives its arguments as an untyped JSON value (\<open>args: unknown\<close> in
  \<open>isChatGPTArgs\<close>). Numbers are modelled as integers: every time the program
  handles is a count of milliseconds, and JSON carries neither NaN nor an infinity.
  An object is the list of its own properties, each key once.
\<close>

datatype jsval =
    JUndefined
  | JNull
  | JBool bool
  | JNum int
  | JStr string
  | JArr "jsval list"
  | JObj "(string \<times> jsval) list"

text \<open>JavaScript's \<open>ToBoolean\<close>, which \<open>!v\<close>, \<open>v && ...\<close>, \<open>v || ...\<close> and \<open>v ? ... : ...\<close> apply.\<close>

fun truthy :: "jsval \<Rightarrow> bool" where
  "truthy JUndefined = False"
| "truthy JNull = False"
| "truthy (JBool b) = b"
| "truthy (JNum n) = (n \<noteq> 0)"
| "truthy (JStr s) = (s \<noteq> [])"
| "truthy (JArr xs) = True"
| "truthy (JObj kvs) = True"

fun typeof :: "jsval \<Rightarrow> string" where
  "typeof JUndefined = ''undefined''"
| "typeof JNull = ''object''"
| "typeof (JBool b) = ''boolean''"
| "typeof (JNum n) = ''number''"
| "typeof (JStr s) = ''string''"
| "typeof (JArr xs) = ''object''"
| "typeof (JObj kvs) = ''object''"

text \<open>
  Reading a property, as the destructuring
  \<open>const { operation, prompt, conversation_id, delay_ms } = args as any\<close> does: a key
  the object does not have reads as \<open>undefined\<close>, and so does each of these four keys
  on an array. The destructuring is only reached for a non-null object.
\<close>

fun get_prop :: "jsval \<Rightarrow> string \<Rightarrow> jsval" where
  "get_prop (JObj kvs) k = (case map_of kvs k of Some v \<Rightarrow> v | None \<Rightarrow> JUndefined)"
| "get_prop v k = JUndefined"

definition dquote :: char where
  "dquote = CHR 0x22"

definition backslash :: char where
  "backslash = CHR 0x5C"

definition newline :: char where
  "newline = CHR 0x0A"

definition digit_char :: "nat \<Rightarrow> char" where
  "digit_char n = ''0123456789'' ! (n mod 10)"

text \<open>The decimal digits of a length, as a template literal prints a number.\<close>

function show_nat :: "nat \<Rightarrow> string" where
  "show_nat n = (if n < 10 then [digit_char n] else show_nat (n div 10) @ [digit_char n])"
  by pat_completeness auto
termination
  by (relation "measure id") auto

declare show_nat.simps [simp del]

text \<open>\<open>xs.join("\n")\<close>\<close>

fun join_lines :: "string list \<Rightarrow> string" where
  "join_lines [] = []"
| "join_lines [x] = x"
| "join_lines (x # y # ys) = x @ [newline] @ join_lines (y # ys)"

text \<open>\<open>str.split(", ")\<close>: the pieces between the occurrences of comma-space, found from the
  left; the first argument is the piece read so far. The empty string splits into one
  empty piece.\<close>

fun split_comma :: "string \<Rightarrow> string \<Rightarrow> string list" where
  "split_comma cur [] = [cur]"
| "split_comma cur [c] = [cur @ [c]]"
| "split_comma cur (c # d # ds) =
     (if c = CHR '','' \<and> d = CHR '' '' then cur # split_comma [] ds
      else split_comma (cur @ [c]) (d # ds))"

text \<open>\<open>text.includes(phrase)\<close>\<close>

fun includes_str :: "string \<Rightarrow> string \<Rightarrow> bool" where
  "includes_str [] phrase = (phrase = [])"
| "includes_str (c # cs) phrase = (prefix phrase (c # cs) \<or> includes_str cs phrase)"

section \<open>The scripting bridge\<close>

text \<open>
  \<open>runAppleScript\<close> is handed one of four scripts. Three are fixed texts; the one that
  \<open>askChatGPT\<close> builds has two holes: the fragment that clicks the conversation's button,
  present when \<open>conversationId\<close> is truthy and then holding the id as it is, and the
  argument of \<open>keystroke\<close>, which is the prompt after \<open>replace(/"/g, '\\"')\<close>.
\<close>

datatype script =
    ExistsScript
  | LaunchScript
  | AskScript "string option" string
  | ListScript

text \<open>
  What the process does to the world, in order: a script run, a \<open>sleep\<close> with its
  duration, an assignment to \<open>lastRequestTime\<close>. Console output is left out.
\<close>

datatype event =
    RunScript script
  | Sleep int
  | SetLastRequestTime int

fun is_Sleep :: "event \<Rightarrow> bool" where
  "is_Sleep (Sleep ms) = True"
| "is_Sleep e = False"

fun is_SetLastRequestTime :: "event \<Rightarrow> bool" where
  "is_SetLastRequestTime (SetLastRequestTime t) = True"
| "is_SetLastRequestTime e = False"

text \<open>
  The process state: the module variable \<open>lastRequestTime\<close>, the value \<open>Date.now()\<close>
  returns, and the events so far.
\<close>

record state =
  lastRequestTime :: int
  clock :: int
  events :: "event list"

text \<open>\<open>let lastRequestTime = 0\<close> at module load.\<close>

definition initial_state :: "int \<Rightarrow> state" where
  "initial_state now = \<lparr>lastRequestTime = 0, clock = now, events = []\<rparr>"

text \<open>
  The world outside the process during one request: what each script run yields (its
  output, or the message of the error it rejects with), how long it takes, and by how
  much a sleep overshoots.
\<close>

record env =
  osa :: "script \<Rightarrow> string + string"
  script_ms :: "script \<Rightarrow> int"
  jitter :: int

definition runAppleScript :: "env \<Rightarrow> script \<Rightarrow> state \<Rightarrow> (string + string) \<times> state" where
  "runAppleScript env scr s =
     (osa env scr,
      s\<lparr>clock := clock s + script_ms env scr, events := events s @ [RunScript scr]\<rparr>)"

definition sleep :: "env \<Rightarrow> int \<Rightarrow> state \<Rightarrow> state" where
  "sleep env ms s = s\<lparr>clock := clock s + ms + jitter env, events := events s @ [Sleep ms]\<rparr>"

section \<open>Rate limiting\<close>

definition RATE_LIMIT_DELAY :: int where
  "RATE_LIMIT_DELAY = 120000"

text \<open>\<open>customDelay || RATE_LIMIT_DELAY\<close>, for \<open>customDelay\<close> a number or \<open>undefined\<close>.\<close>

definition delay_or_default :: "int option \<Rightarrow> int" where
  "delay_or_default customDelay =
     (case customDelay of
        None \<Rightarrow> RATE_LIMIT_DELAY
      | Some d \<Rightarrow> if d \<noteq> 0 then d else RATE_LIMIT_DELAY)"

definition waitForRateLimit :: "env \<Rightarrow> int option \<Rightarrow> state \<Rightarrow> state" where
  "waitForRateLimit env customDelay s =
     (let now = clock s;
          timeSinceLastRequest = now - lastRequestTime s;
          delayToUse = delay_or_default customDelay
      in if timeSinceLastRequest < delayToUse
         then sleep env (delayToUse - timeSinceLastRequest) s
         else s)"

section \<open>Availability check\<close>

definition cannot_access :: "string \<Rightarrow> string" where
  "cannot_access msg =
     ''Cannot access ChatGPT app. Please make sure ChatGPT is installed and properly configured. Error: '' @ msg"

definition checkChatGPTAccess :: "env \<Rightarrow> state \<Rightarrow> (string + bool) \<times> state" where
  "checkChatGPTAccess env s =
     (case runAppleScript env ExistsScript s of
        (Inl e, s1) \<Rightarrow> (Inl (cannot_access e), s1)
      | (Inr isRunning, s1) \<Rightarrow>
          if isRunning \<noteq> ''true'' then
            (case runAppleScript env LaunchScript s1 of
               (Inl activateError, s2) \<Rightarrow>
                 (Inl (cannot_access ''Could not activate ChatGPT app. Please start it manually.''), s2)
             | (Inr out, s2) \<Rightarrow> (Inr True, s2))
          else (Inr True, s1))"

section \<open>Asking\<close>

text \<open>\<open>prompt.replace(/"/g, '\\"')\<close>: a backslash before every double quote.\<close>

definition escape_quotes :: "string \<Rightarrow> string" where
  "escape_quotes prompt = concat (map (\<lambda>c. if c = dquote then [backslash, dquote] else [c]) prompt)"

text \<open>The script for a prompt and an optional conversation id; the empty id is falsy.\<close>

definition ask_script :: "string \<Rightarrow> string option \<Rightarrow> script" where
  "ask_script prompt conversationId =
     AskScript (case conversationId of
                  None \<Rightarrow> None
                | Some c \<Rightarrow> if c \<noteq> [] then Some c else None)
               (escape_quotes prompt)"

definition askChatGPT ::
  "env \<Rightarrow> string \<Rightarrow> string option \<Rightarrow> int option \<Rightarrow> state \<Rightarrow> (string + string) \<times> state" where
  "askChatGPT env prompt conversationId customDelay s =
     (case checkChatGPTAccess env s of
        (Inl e, s1) \<Rightarrow> (Inl e, s1)
      | (Inr ok, s1) \<Rightarrow>
          (let s2 = waitForRateLimit env customDelay s1;
               s3 = s2\<lparr>lastRequestTime := clock s2,
                       events := events s2 @ [SetLastRequestTime (clock s2)]\<rparr>
           in case runAppleScript env (ask_script prompt conversationId) s3 of
                (Inl e, s4) \<Rightarrow> (Inl (''Failed to get response from ChatGPT: '' @ e), s4)
              | (Inr result, s4) \<Rightarrow> (Inr result, s4)))"

section \<open>Listing conversations\<close>

definition getConversations :: "env \<Rightarrow> state \<Rightarrow> (string + string list) \<times> state" where
  "getConversations env s =
     (case checkChatGPTAccess env s of
        (Inl e, s1) \<Rightarrow> (Inl e, s1)
      | (Inr ok, s1) \<Rightarrow>
          (case runAppleScript env ListScript s1 of
             (Inl e, s2) \<Rightarrow> (Inr [''Error retrieving conversations''], s2)
           | (Inr result, s2) \<Rightarrow> (Inr (split_comma [] result), s2)))"

section \<open>Validation and the tool handler\<close>

definition isChatGPTArgs :: "jsval \<Rightarrow> bool" where
  "isChatGPTArgs args =
     (if typeof args \<noteq> ''object'' \<or> args = JNull then False
      else
        let operation = get_prop args ''operation'';
            prompt = get_prop args ''prompt'';
            conversation_id = get_prop args ''conversation_id'';
            delay_ms = get_prop args ''delay_ms''
        in if \<not> truthy operation
              \<or> \<not> (operation = JStr ''ask'' \<or> operation = JStr ''get_conversations'')
           then False
           else if operation = JStr ''ask'' \<and> \<not> truthy prompt then False
           else if truthy prompt \<and> typeof prompt \<noteq> ''string'' then False
           else if truthy conversation_id \<and> typeof conversation_id \<noteq> ''string'' then False
           else if delay_ms \<noteq> JUndefined \<and> typeof delay_ms \<noteq> ''number'' then False
           else True)"

record envelope =
  content_text :: string
  isError :: bool

text \<open>
  The validated fields at the types \<open>askChatGPT\<close> declares. After \<open>isChatGPTArgs\<close> and
  the check of \<open>args.prompt\<close>, the prompt is a non-empty string, the conversation id is a
  string or falsy (every falsy value leaves the click fragment out, as \<open>undefined\<close> does),
  and the delay is a number or \<open>undefined\<close>.
\<close>

fun as_string :: "jsval \<Rightarrow> string" where
  "as_string (JStr s) = s"
| "as_string v = []"

fun as_optional_string :: "jsval \<Rightarrow> string option" where
  "as_optional_string (JStr s) = Some s"
| "as_optional_string v = None"

fun as_optional_number :: "jsval \<Rightarrow> int option" where
  "as_optional_number (JNum n) = Some n"
| "as_optional_number v = None"

definition ask_reply :: "string \<Rightarrow> envelope" where
  "ask_reply response =
     \<lparr>content_text = (if response \<noteq> [] then response else ''No response received from ChatGPT.''),
      isError = False\<rparr>"

definition conversations_reply :: "string list \<Rightarrow> envelope" where
  "conversations_reply conversations =
     \<lparr>content_text =
        (if length conversations > 0
         then ''Found '' @ show_nat (length conversations) @ '' conversation(s):''
              @ [newline, newline] @ join_lines conversations
         else ''No conversations found in ChatGPT.''),
      isError = False\<rparr>"

text \<open>
  The body of the handler's \<open>try\<close>: \<open>Inl\<close> is the message of a thrown error. The last
  branch of the \<open>switch\<close> is its \<open>default\<close>, which validation leaves unreachable.
\<close>

definition call_tool_body :: "env \<Rightarrow> string \<Rightarrow> jsval \<Rightarrow> state \<Rightarrow> (string + envelope) \<times> state" where
  "call_tool_body env name args s =
     (if \<not> truthy args then (Inl ''No arguments provided'', s)
      else if name = ''chatgpt'' then
        (if \<not> isChatGPTArgs args then (Inl ''Invalid arguments for ChatGPT tool'', s)
         else if get_prop args ''operation'' = JStr ''ask'' then
           (if \<not> truthy (get_prop args ''prompt'')
            then (Inl ''Prompt is required for ask operation'', s)
            else
              (case askChatGPT env (as_string (get_prop args ''prompt''))
                      (as_optional_string (get_prop args ''conversation_id''))
                      (as_optional_number (get_prop args ''delay_ms'')) s of
                 (Inl e, s') \<Rightarrow> (Inl e, s')
               | (Inr response, s') \<Rightarrow> (Inr (ask_reply response), s')))
         else if get_prop args ''operation'' = JStr ''get_conversations'' then
           (case getConversations env s of
              (Inl e, s') \<Rightarrow> (Inl e, s')
            | (Inr conversations, s') \<Rightarrow> (Inr (conversations_reply conversations), s'))
         else (Inl (''Unknown operation: '' @ as_string (get_prop args ''operation'')), s))
      else (Inr \<lparr>content_text = ''Unknown tool: '' @ name, isError = True\<rparr>, s))"

text \<open>The handler: the \<open>catch\<close> turns every thrown error into an error envelope.\<close>

definition call_tool :: "env \<Rightarrow> string \<Rightarrow> jsval \<Rightarrow> state \<Rightarrow> envelope \<times> state" where
  "call_tool env name args s =
     (case call_tool_body env name args s of
        (Inl msg, s') \<Rightarrow> (\<lparr>content_text = ''Error: '' @ msg, isError = True\<rparr>, s')
      | (Inr reply, s') \<Rightarrow> (reply, s'))"

section \<open>The scripts as AppleScript runs them\<close>

text \<open>
  The two longer scripts have control flow of their own: \<open>try\<close> blocks that swallow an
  error or replace it by a literal. Their steps act on the application's windows; one
  run meets one outcome of each step, \<open>None\<close> or \<open>Inr\<close> where the step succeeds and the
  error's message otherwise.
\<close>

record ui =
  activate :: "string option"
  click_conversation :: "string option"
  keystroke_prompt :: "string option"
  keystroke_return :: "string option"
  reply_value :: "string + string"
  buttons :: "string + string list"

text \<open>
  The script of \<open>askChatGPT\<close>, run as it is written: the click sits in a \<open>try\<close> with no
  handler, so its outcome changes nothing; reading the reply sits in a \<open>try\<close> whose
  \<open>on error\<close> puts the literal in its place. Any other failing step ends the script
  with its error.
\<close>

definition ask_script_run :: "ui \<Rightarrow> string option \<Rightarrow> string + string" where
  "ask_script_run u conversation =
     (case activate u of
        Some e \<Rightarrow> Inl e
      | None \<Rightarrow>
          (case (case conversation of None \<Rightarrow> None | Some c \<Rightarrow> click_conversation u) of
             clicked \<Rightarrow>
               (case keystroke_prompt u of
                  Some e \<Rightarrow> Inl e
                | None \<Rightarrow>
                    (case keystroke_return u of
                       Some e \<Rightarrow> Inl e
                     | None \<Rightarrow>
                         (case reply_value u of
                            Inl e \<Rightarrow> Inr ''Could not retrieve the response from ChatGPT.''
                          | Inr responseText \<Rightarrow> Inr responseText)))))"

text \<open>
  AppleScript compares text ignoring case unless a \<open>considering case\<close> block says
  otherwise, and the script has none: \<open>buttonName is not "New chat"\<close> is false for
  every spelling of the label in upper and lower case.
\<close>

definition lower_ascii :: "char \<Rightarrow> char" where
  "lower_ascii c =
     (case map_of (zip ''ABCDEFGHIJKLMNOPQRSTUVWXYZ'' ''abcdefghijklmnopqrstuvwxyz'') c of
        Some l \<Rightarrow> l
      | None \<Rightarrow> c)"

definition is_not_text :: "string \<Rightarrow> string \<Rightarrow> bool" where
  "is_not_text a b = (map lower_ascii a \<noteq> map lower_ascii b)"

text \<open>
  The script's result is a list, which \<open>osascript\<close> prints with comma-space between the
  items and nothing around them; the empty list prints as the empty string.
\<close>

fun print_list :: "string list \<Rightarrow> string" where
  "print_list [] = []"
| "print_list [x] = x"
| "print_list (x # y # ys) = x @ '', '' @ print_list (y # ys)"

text \<open>The \<open>repeat\<close> loop of the listing script over the buttons, in their order.\<close>

fun collect_names :: "string list \<Rightarrow> string list \<Rightarrow> string list" where
  "collect_names conversationsList [] = conversationsList"
| "collect_names conversationsList (buttonName # chatButtons) =
     (if is_not_text buttonName ''New chat''
      then collect_names (conversationsList @ [buttonName]) chatButtons
      else collect_names conversationsList chatButtons)"

definition list_script_run :: "ui \<Rightarrow> string + string" where
  "list_script_run u =
     (case activate u of
        Some e \<Rightarrow> Inl e
      | None \<Rightarrow>
          Inr (print_list
                 (case buttons u of
                    Inl e \<Rightarrow> [''Unable to retrieve conversations'']
                  | Inr chatButtons \<Rightarrow> collect_names [] chatButtons)))"

text \<open>
  An AppleScript string literal ends at the first double quote that no backslash
  escapes; a backslash takes the next character with it. Reading a literal from the
  text after its opening quote gives the text after its closing quote, and nothing
  when the literal never closes.
\<close>

fun after_literal :: "string \<Rightarrow> string option" where
  "after_literal [] = None"
| "after_literal [c] = (if c = dquote then Some [] else None)"
| "after_literal (c # d # cs) =
     (if c = dquote then Some (d # cs)
      else if c = backslash then after_literal cs
      else after_literal (d # cs))"

text \<open>
  The line \<open>keystroke "${...}"\<close> after its opening quote: the escaped prompt and the
  template's closing quote. The prompt stays inside its literal when the literal read
  from there ends at that closing quote, with nothing left over.
\<close>

definition keystroke_argument :: "string \<Rightarrow> string" where
  "keystroke_argument prompt = escape_quotes prompt @ [dquote]"

definition stays_literal :: "string \<Rightarrow> bool" where
  "stays_literal prompt = (after_literal (keystroke_argument prompt) = Some [])"

section \<open>Example worlds and requests\<close>

text \<open>A world in which every script succeeds at once and prints \<open>true\<close>.\<close>

definition quiet_env :: env where
  "quiet_env = \<lparr>osa = (\<lambda>scr. Inr ''true''), script_ms = (\<lambda>scr. 0), jitter = 0\<rparr>"

text \<open>A world in which the scripting bridge rejects every script.\<close>

definition unreachable_env :: env where
  "unreachable_env = \<lparr>osa = (\<lambda>scr. Inl ''bridge down''), script_ms = (\<lambda>scr. 0), jitter = 0\<rparr>"

text \<open>A world in which the application is running and both longer scripts fail, each
  script taking seven milliseconds.\<close>

definition failing_script_env :: env where
  "failing_script_env =
     \<lparr>osa = (\<lambda>scr. case scr of
                     ExistsScript \<Rightarrow> Inr ''true''
                   | LaunchScript \<Rightarrow> Inr []
                   | AskScript fragment argument \<Rightarrow> Inl ''script error''
                   | ListScript \<Rightarrow> Inl ''script error''),
      script_ms = (\<lambda>scr. 7),
      jitter = 0\<rparr>"

text \<open>A world in which the application is running and the two longer scripts run as
  they are written, on the given outcomes of their steps.\<close>

definition scripted_env :: "ui \<Rightarrow> env" where
  "scripted_env u =
     \<lparr>osa = (\<lambda>scr. case scr of
                     ExistsScript \<Rightarrow> Inr ''true''
                   | LaunchScript \<Rightarrow> Inr []
                   | AskScript fragment argument \<Rightarrow> ask_script_run u fragment
                   | ListScript \<Rightarrow> list_script_run u),
      script_ms = (\<lambda>scr. 0),
      jitter = 0\<rparr>"

text \<open>A window with no conversation and no readable reply, and one with a single
  conversation whose title holds a comma and a space.\<close>

definition silent_ui :: ui where
  "silent_ui = \<lparr>activate = None, click_conversation = None, keystroke_prompt = None,
                keystroke_return = None, reply_value = Inl ''no text area'',
                buttons = Inr [''New chat'']\<rparr>"

definition titled_ui :: ui where
  "titled_ui = \<lparr>activate = None, click_conversation = None, keystroke_prompt = None,
                keystroke_return = None, reply_value = Inr ''fine'',
                buttons = Inr [''New chat'', ''Plan, draft'']\<rparr>"

definition ask_hi :: jsval where
  "ask_hi = JObj [(''operation'', JStr ''ask''), (''prompt'', JStr ''hi'')]"

definition ask_zero_delay :: jsval where
  "ask_zero_delay =
     JObj [(''operation'', JStr ''ask''), (''prompt'', JStr ''hi''), (''delay_ms'', JNum 0)]"

definition ask_negative_delay :: jsval where
  "ask_negative_delay =
     JObj [(''operation'', JStr ''ask''), (''prompt'', JStr ''hi''), (''delay_ms'', JNum (- 5))]"

definition ask_no_prompt :: jsval where
  "ask_no_prompt = JObj [(''operation'', JStr ''ask'')]"

definition ask_empty_prompt :: jsval where
  "ask_empty_prompt = JObj [(''operation'', JStr ''ask''), (''prompt'', JStr [])]"

definition list_request :: jsval where
  "list_request = JObj [(''operation'', JStr ''get_conversations'')]"

text \<open>The state right after a dispatch: no time has passed since the timestamp.\<close>

definition just_dispatched :: state where
  "just_dispatched = \<lparr>lastRequestTime = 500000, clock = 500000, events = []\<rparr>"

text \<open>A state whose clock has been set back ten milliseconds behind the timestamp.\<close>

definition clock_set_back :: state where
  "clock_set_back = \<lparr>lastRequestTime = 500010, clock = 500000, events = []\<rparr>"

lemmas run_defs =
  call_tool_def call_tool_body_def isChatGPTArgs_def askChatGPT_def getConversations_def
  checkChatGPTAccess_def runAppleScript_def waitForRateLimit_def delay_or_default_def
  RATE_LIMIT_DELAY_def sleep_def ask_script_def escape_quotes_def ask_reply_def
  conversations_reply_def cannot_access_def initial_state_def dquote_def backslash_def newline_def

lemmas example_defs =
  quiet_env_def unreachable_env_def failing_script_env_def scripted_env_def silent_ui_def
  titled_ui_def ask_hi_def ask_zero_delay_def ask_no_prompt_def ask_empty_prompt_def
  ask_negative_delay_def list_request_def just_dispatched_def

section \<open>Facts about the rate limiter\<close>

lemma delay_or_default_nonzero: "d \<noteq> 0 \<Longrightarrow> delay_or_default (Some d) = d"
  by (simp add: delay_or_default_def)

lemma delay_or_default_absent: "delay_or_default None = 120000"
  by (simp add: delay_or_default_def RATE_LIMIT_DELAY_def)

lemma waitForRateLimit_suspends:
  "clock s - lastRequestTime s < delay_or_default d \<Longrightarrow>
   waitForRateLimit env d s = sleep env (delay_or_default d - (clock s - lastRequestTime s)) s"
  by (simp add: waitForRateLimit_def)

lemma waitForRateLimit_proceeds:
  "\<not> clock s - lastRequestTime s < delay_or_default d \<Longrightarrow> waitForRateLimit env d s = s"
  by (simp add: waitForRateLimit_def)

lemma waitForRateLimit_lastRequestTime:
  "lastRequestTime (waitForRateLimit env d s) = lastRequestTime s"
  by (simp add: waitForRateLimit_def sleep_def Let_def)

lemma waitForRateLimit_no_write:
  "filter is_SetLastRequestTime (events (waitForRateLimit env d s))
     = filter is_SetLastRequestTime (events s)"
  by (simp add: waitForRateLimit_def sleep_def Let_def)

text \<open>With no custom delay, thirty seconds after the last request, the wait is ninety
  seconds.\<close>

lemma default_interval_example:
  "events (waitForRateLimit env None \<lparr>lastRequestTime = T0, clock = T0 + 30000, events = []\<rparr>)
     = [Sleep 90000]"
  by (simp add: waitForRateLimit_def delay_or_default_def RATE_LIMIT_DELAY_def sleep_def)

text \<open>
  Claim C1: the limiter takes the custom interval when one is supplied and 120000
  otherwise, and waits for the interval less the elapsed time when that is positive.
  The code takes the interval with \<open>||\<close>, so a supplied interval of 0 is replaced by
  120000: thirty seconds after the last request, a call with the interval 0 sleeps for
  ninety seconds, where the claim has it proceed at once.
\<close>

theorem zero_delay_takes_default_interval:
  "waitForRateLimit env (Some 0) \<lparr>lastRequestTime = T0, clock = T0 + 30000, events = []\<rparr>
     = \<lparr>lastRequestTime = T0, clock = T0 + 120000 + jitter env, events = [Sleep 90000]\<rparr>"
  by (simp add: waitForRateLimit_def delay_or_default_def RATE_LIMIT_DELAY_def sleep_def)

text \<open>
  Claim C2: with \<open>delay_ms = 0\<close> a dispatch issued immediately after a prior one incurs
  no suspension. In the code, two requests with \<open>delay_ms = 0\<close>, one right after the
  other: the first finds the last request long past and goes through, the second
  sleeps for the full 120000 milliseconds before its timestamp is written.
\<close>

theorem zero_delay_ms_still_throttled:
  "events (snd (call_tool quiet_env ''chatgpt'' ask_zero_delay
             (snd (call_tool quiet_env ''chatgpt'' ask_zero_delay (initial_state 500000)))))
     = [RunScript ExistsScript, SetLastRequestTime 500000, RunScript (AskScript None ''hi''),
        RunScript ExistsScript, Sleep 120000, SetLastRequestTime 620000,
        RunScript (AskScript None ''hi'')]"
  by (simp add: run_defs quiet_env_def ask_zero_delay_def)

section \<open>Facts about the availability check and the two operations\<close>

lemma checkChatGPTAccess_lastRequestTime:
  "lastRequestTime (snd (checkChatGPTAccess env s)) = lastRequestTime s"
  by (simp add: checkChatGPTAccess_def runAppleScript_def split: sum.splits)

lemma checkChatGPTAccess_no_write:
  "filter is_SetLastRequestTime (events (snd (checkChatGPTAccess env s)))
     = filter is_SetLastRequestTime (events s)"
  by (simp add: checkChatGPTAccess_def runAppleScript_def split: sum.splits)

lemma checkChatGPTAccess_no_sleep:
  "filter is_Sleep (events (snd (checkChatGPTAccess env s))) = filter is_Sleep (events s)"
  by (simp add: checkChatGPTAccess_def runAppleScript_def split: sum.splits)

lemma checkChatGPTAccess_clock:
  "\<forall>scr. 0 \<le> script_ms env scr \<Longrightarrow> clock s \<le> clock (snd (checkChatGPTAccess env s))"
  by (simp add: checkChatGPTAccess_def runAppleScript_def add_increasing2 split: sum.splits)

lemma checkChatGPTAccess_message:
  "fst (checkChatGPTAccess env s) = Inl m \<Longrightarrow> \<exists>e. m = cannot_access e"
  by (auto simp add: checkChatGPTAccess_def runAppleScript_def split: sum.splits if_splits)

lemma askChatGPT_unavailable:
  "fst (checkChatGPTAccess env s) = Inl m \<Longrightarrow>
   askChatGPT env p c d s = (Inl m, snd (checkChatGPTAccess env s))"
  by (cases "checkChatGPTAccess env s") (simp add: askChatGPT_def)

lemma askChatGPT_available:
  "fst (checkChatGPTAccess env s) = Inr ok \<Longrightarrow>
   askChatGPT env p c d s =
     (let s2 = waitForRateLimit env d (snd (checkChatGPTAccess env s))
      in ((case osa env (ask_script p c) of
             Inl e \<Rightarrow> Inl (''Failed to get response from ChatGPT: '' @ e)
           | Inr result \<Rightarrow> Inr result),
          \<lparr>lastRequestTime = clock s2,
           clock = clock s2 + script_ms env (ask_script p c),
           events = events s2 @ [SetLastRequestTime (clock s2), RunScript (ask_script p c)]\<rparr>))"
  by (cases "checkChatGPTAccess env s")
     (simp add: askChatGPT_def runAppleScript_def Let_def split: sum.splits)

lemma getConversations_unavailable:
  "fst (checkChatGPTAccess env s) = Inl m \<Longrightarrow>
   getConversations env s = (Inl m, snd (checkChatGPTAccess env s))"
  by (cases "checkChatGPTAccess env s") (simp add: getConversations_def)

lemma getConversations_available:
  "fst (checkChatGPTAccess env s) = Inr ok \<Longrightarrow>
   getConversations env s =
     (let s1 = snd (checkChatGPTAccess env s)
      in (Inr (case osa env ListScript of
                 Inl e \<Rightarrow> [''Error retrieving conversations'']
               | Inr result \<Rightarrow> split_comma [] result),
          s1\<lparr>clock := clock s1 + script_ms env ListScript,
             events := events s1 @ [RunScript ListScript]\<rparr>))"
  by (cases "checkChatGPTAccess env s")
     (simp add: getConversations_def runAppleScript_def Let_def split: sum.splits)

section \<open>Facts about validation and the handler\<close>

lemma isChatGPTArgs_truthy: "isChatGPTArgs args \<Longrightarrow> truthy args"
  by (cases args) (simp_all add: isChatGPTArgs_def)

text \<open>Validation leaves the \<open>default\<close> branch of the handler's \<open>switch\<close> unreachable.\<close>

lemma isChatGPTArgs_operation:
  "isChatGPTArgs args \<Longrightarrow>
   get_prop args ''operation'' = JStr ''ask''
   \<or> get_prop args ''operation'' = JStr ''get_conversations''"
  by (auto simp add: isChatGPTArgs_def Let_def split: if_splits)

lemma isChatGPTArgs_prompt:
  "isChatGPTArgs args \<Longrightarrow> get_prop args ''operation'' = JStr ''ask'' \<Longrightarrow>
   \<exists>p. get_prop args ''prompt'' = JStr p \<and> p \<noteq> []"
  by (cases "get_prop args ''prompt''") (auto simp add: isChatGPTArgs_def Let_def split: if_splits)

lemma call_tool_ask:
  "isChatGPTArgs args \<Longrightarrow> get_prop args ''operation'' = JStr ''ask'' \<Longrightarrow>
   call_tool env ''chatgpt'' args s =
     (case askChatGPT env (as_string (get_prop args ''prompt''))
             (as_optional_string (get_prop args ''conversation_id''))
             (as_optional_number (get_prop args ''delay_ms'')) s of
        (Inl e, s') \<Rightarrow> (\<lparr>content_text = ''Error: '' @ e, isError = True\<rparr>, s')
      | (Inr response, s') \<Rightarrow> (ask_reply response, s'))"
  using isChatGPTArgs_truthy [of args] isChatGPTArgs_prompt [of args]
  by (auto simp add: call_tool_def call_tool_body_def split: prod.splits sum.splits)

lemma call_tool_get_conversations:
  "isChatGPTArgs args \<Longrightarrow> get_prop args ''operation'' = JStr ''get_conversations'' \<Longrightarrow>
   call_tool env ''chatgpt'' args s =
     (case getConversations env s of
        (Inl e, s') \<Rightarrow> (\<lparr>content_text = ''Error: '' @ e, isError = True\<rparr>, s')
      | (Inr conversations, s') \<Rightarrow> (conversations_reply conversations, s'))"
  using isChatGPTArgs_truthy [of args]
  by (auto simp add: call_tool_def call_tool_body_def split: prod.splits sum.splits)

section \<open>A failing availability check\<close>

text \<open>
  Claim C3, as stated: when the availability check fails, \<open>ask\<close> answers with an error
  whose text holds the phrase \<open>Failed to get response from ChatGPT\<close>, and
  \<open>get_conversations\<close> answers with a success envelope. With the scripting bridge down,
  \<open>get_conversations\<close> answers with an error envelope, and the text of the answer to
  \<open>ask\<close> does not hold the phrase.
\<close>

theorem availability_failure_counterexample:
  "isError (fst (call_tool unreachable_env ''chatgpt'' list_request (initial_state 500000)))
   \<and> \<not> includes_str
         (content_text (fst (call_tool unreachable_env ''chatgpt'' ask_hi (initial_state 500000))))
         ''Failed to get response from ChatGPT''"
  by (simp add: run_defs unreachable_env_def ask_hi_def list_request_def)

text \<open>
  Claim C3, amended: both functions call the check before their \<open>try\<close>. When it fails,
  either operation answers with an error envelope whose text is \<open>Error: \<close> and the
  check's own message (\<open>Cannot access ChatGPT app. ...\<close> with the cause), and nothing
  runs after the check. When the check succeeds and the interaction script fails, \<open>ask\<close>
  answers with an error envelope holding \<open>Failed to get response from ChatGPT\<close> and the
  cause; when the check succeeds and the listing script fails, \<open>get_conversations\<close>
  answers with a success envelope for the list \<open>["Error retrieving conversations"]\<close>.
\<close>

theorem availability_failure_propagates:
  "(isChatGPTArgs args \<and> fst (checkChatGPTAccess env s) = Inl m \<longrightarrow>
      call_tool env ''chatgpt'' args s
        = (\<lparr>content_text = ''Error: '' @ m, isError = True\<rparr>, snd (checkChatGPTAccess env s))
      \<and> (\<exists>cause. m = cannot_access cause))
   \<and> (isChatGPTArgs args \<and> get_prop args ''operation'' = JStr ''ask''
        \<and> fst (checkChatGPTAccess env s) = Inr ok
        \<and> osa env (ask_script (as_string (get_prop args ''prompt''))
                      (as_optional_string (get_prop args ''conversation_id''))) = Inl e \<longrightarrow>
      fst (call_tool env ''chatgpt'' args s)
        = \<lparr>content_text = ''Error: Failed to get response from ChatGPT: '' @ e, isError = True\<rparr>)
   \<and> (isChatGPTArgs args \<and> get_prop args ''operation'' = JStr ''get_conversations''
        \<and> fst (checkChatGPTAccess env s) = Inr ok \<and> osa env ListScript = Inl e \<longrightarrow>
      fst (call_tool env ''chatgpt'' args s)
        = conversations_reply [''Error retrieving conversations''])"
proof (intro conjI impI)
  assume h: "isChatGPTArgs args \<and> fst (checkChatGPTAccess env s) = Inl m"
  from h isChatGPTArgs_operation [of args]
  show "call_tool env ''chatgpt'' args s
          = (\<lparr>content_text = ''Error: '' @ m, isError = True\<rparr>, snd (checkChatGPTAccess env s))"
    by (auto simp add: call_tool_ask call_tool_get_conversations askChatGPT_unavailable
          getConversations_unavailable)
  from h show "\<exists>cause. m = cannot_access cause"
    by (blast dest: checkChatGPTAccess_message)
next
  assume "isChatGPTArgs args \<and> get_prop args ''operation'' = JStr ''ask''
        \<and> fst (checkChatGPTAccess env s) = Inr ok
        \<and> osa env (ask_script (as_string (get_prop args ''prompt''))
                      (as_optional_string (get_prop args ''conversation_id''))) = Inl e"
  then show "fst (call_tool env ''chatgpt'' args s)
        = \<lparr>content_text = ''Error: Failed to get response from ChatGPT: '' @ e, isError = True\<rparr>"
    by (simp add: call_tool_ask askChatGPT_available Let_def)
next
  assume "isChatGPTArgs args \<and> get_prop args ''operation'' = JStr ''get_conversations''
        \<and> fst (checkChatGPTAccess env s) = Inr ok \<and> osa env ListScript = Inl e"
  then show "fst (call_tool env ''chatgpt'' args s)
        = conversations_reply [''Error retrieving conversations'']"
    by (simp add: call_tool_get_conversations getConversations_available Let_def)
qed

theorem availability_failure_propagates_witness:
  "call_tool unreachable_env ''chatgpt'' list_request (initial_state 500000)
     = (\<lparr>content_text = ''Error: '' @ cannot_access ''bridge down'', isError = True\<rparr>,
        \<lparr>lastRequestTime = 0, clock = 500000, events = [RunScript ExistsScript]\<rparr>)
   \<and> call_tool unreachable_env ''chatgpt'' ask_hi (initial_state 500000)
     = (\<lparr>content_text = ''Error: '' @ cannot_access ''bridge down'', isError = True\<rparr>,
        \<lparr>lastRequestTime = 0, clock = 500000, events = [RunScript ExistsScript]\<rparr>)
   \<and> fst (call_tool failing_script_env ''chatgpt'' ask_hi (initial_state 500000))
     = \<lparr>content_text = ''Error: Failed to get response from ChatGPT: script error'',
        isError = True\<rparr>
   \<and> fst (call_tool failing_script_env ''chatgpt'' list_request (initial_state 500000))
     = \<lparr>content_text = ''Found 1 conversation(s):'' @ [newline, newline]
                        @ ''Error retrieving conversations'',
        isError = False\<rparr>"
proof -
  have valid_list: "isChatGPTArgs list_request" and valid_ask: "isChatGPTArgs ask_hi"
    by (simp_all add: isChatGPTArgs_def list_request_def ask_hi_def)
  have down: "fst (checkChatGPTAccess unreachable_env (initial_state 500000))
                = Inl (cannot_access ''bridge down'')"
    by (simp add: checkChatGPTAccess_def runAppleScript_def unreachable_env_def)
  have down_state: "snd (checkChatGPTAccess unreachable_env (initial_state 500000))
                = \<lparr>lastRequestTime = 0, clock = 500000, events = [RunScript ExistsScript]\<rparr>"
    by (simp add: checkChatGPTAccess_def runAppleScript_def unreachable_env_def initial_state_def)
  have up: "fst (checkChatGPTAccess failing_script_env (initial_state 500000)) = Inr True"
    by (simp add: checkChatGPTAccess_def runAppleScript_def failing_script_env_def)
  have ask_fails: "osa failing_script_env
                     (ask_script (as_string (get_prop ask_hi ''prompt''))
                        (as_optional_string (get_prop ask_hi ''conversation_id'')))
                   = Inl ''script error''"
    by (simp add: failing_script_env_def ask_script_def ask_hi_def)
  have list_fails: "osa failing_script_env ListScript = Inl ''script error''"
    by (simp add: failing_script_env_def)
  have op_ask: "get_prop ask_hi ''operation'' = JStr ''ask''"
    by (simp add: ask_hi_def)
  have op_list: "get_prop list_request ''operation'' = JStr ''get_conversations''"
    by (simp add: list_request_def)
  have sentinel: "conversations_reply [''Error retrieving conversations'']
                    = \<lparr>content_text = ''Found 1 conversation(s):'' @ [newline, newline]
                        @ ''Error retrieving conversations'', isError = False\<rparr>"
    by (simp add: conversations_reply_def show_nat.simps digit_char_def)
  show ?thesis
    using availability_failure_propagates
            [of list_request unreachable_env "initial_state 500000" "cannot_access ''bridge down''"]
          availability_failure_propagates
            [of ask_hi unreachable_env "initial_state 500000" "cannot_access ''bridge down''"]
          availability_failure_propagates
            [of ask_hi failing_script_env "initial_state 500000" _ True "''script error''"]
          availability_failure_propagates
            [of list_request failing_script_env "initial_state 500000" _ True "''script error''"]
          valid_list valid_ask down down_state up ask_fails list_fails op_ask op_list sentinel
    by simp
qed

section \<open>An unreadable reply\<close>

text \<open>
  Claim C4: a valid \<open>ask\<close> request, the availability check succeeds, the interaction
  script runs as written, its steps up to reading the reply succeed (whatever the click
  on the conversation does) and reading the reply fails: the handler answers with a
  success envelope whose text is exactly the fallback sentence.
\<close>

theorem unreadable_reply_gives_fallback:
  assumes "isChatGPTArgs args" and "get_prop args ''operation'' = JStr ''ask''"
    and "fst (checkChatGPTAccess env s) = Inr ok"
    and "\<forall>fragment argument. osa env (AskScript fragment argument) = ask_script_run u fragment"
    and "activate u = None" and "keystroke_prompt u = None" and "keystroke_return u = None"
    and "reply_value u = Inl e"
  shows "fst (call_tool env ''chatgpt'' args s)
           = \<lparr>content_text = ''Could not retrieve the response from ChatGPT.'', isError = False\<rparr>"
  using assms
  by (simp add: call_tool_ask askChatGPT_available Let_def ask_script_def ask_script_run_def
        ask_reply_def)

theorem unreadable_reply_gives_fallback_witness:
  "isChatGPTArgs ask_hi
   \<and> fst (checkChatGPTAccess (scripted_env silent_ui) (initial_state 500000)) = Inr True
   \<and> reply_value silent_ui = Inl ''no text area''
   \<and> fst (call_tool (scripted_env silent_ui) ''chatgpt'' ask_hi (initial_state 500000))
       = \<lparr>content_text = ''Could not retrieve the response from ChatGPT.'', isError = False\<rparr>"
proof -
  have valid: "isChatGPTArgs ask_hi" and op: "get_prop ask_hi ''operation'' = JStr ''ask''"
    by (simp_all add: isChatGPTArgs_def ask_hi_def)
  have up: "fst (checkChatGPTAccess (scripted_env silent_ui) (initial_state 500000)) = Inr True"
    by (simp add: checkChatGPTAccess_def runAppleScript_def scripted_env_def)
  have run: "\<forall>fragment argument.
               osa (scripted_env silent_ui) (AskScript fragment argument)
                 = ask_script_run silent_ui fragment"
    by (simp add: scripted_env_def)
  have steps: "activate silent_ui = None" "keystroke_prompt silent_ui = None"
    "keystroke_return silent_ui = None" "reply_value silent_ui = Inl ''no text area''"
    by (simp_all add: silent_ui_def)
  from unreadable_reply_gives_fallback [OF valid op up run steps] valid up steps(4)
  show ?thesis by simp
qed

section \<open>A request to ask with no prompt\<close>

text \<open>
  Claim C5: a request whose operation is \<open>ask\<close> and whose prompt is missing or empty
  (or falsy in any other way) is answered with an error envelope, and the state is the
  one before: no script has run, nothing has slept, and \<open>lastRequestTime\<close> is as it was.
  For the tool \<open>chatgpt\<close> the text is that of the validation error.
\<close>

theorem ask_without_prompt_rejected:
  assumes "get_prop args ''operation'' = JStr ''ask''"
    and "\<not> truthy (get_prop args ''prompt'')"
  shows "snd (call_tool env name args s) = s
         \<and> isError (fst (call_tool env name args s))
         \<and> (name = ''chatgpt'' \<longrightarrow>
              content_text (fst (call_tool env name args s))
                = ''Error: Invalid arguments for ChatGPT tool'')"
proof -
  from assms(1) obtain kvs where "args = JObj kvs"
    by (cases args) simp_all
  moreover from assms have "\<not> isChatGPTArgs args"
    by (simp add: isChatGPTArgs_def Let_def)
  ultimately show ?thesis
    by (simp add: call_tool_def call_tool_body_def)
qed

theorem ask_without_prompt_rejected_witness:
  "get_prop ask_no_prompt ''prompt'' = JUndefined
   \<and> call_tool quiet_env ''chatgpt'' ask_no_prompt just_dispatched
       = (\<lparr>content_text = ''Error: Invalid arguments for ChatGPT tool'', isError = True\<rparr>,
          just_dispatched)
   \<and> get_prop ask_empty_prompt ''prompt'' = JStr []
   \<and> call_tool quiet_env ''chatgpt'' ask_empty_prompt just_dispatched
       = (\<lparr>content_text = ''Error: Invalid arguments for ChatGPT tool'', isError = True\<rparr>,
          just_dispatched)"
proof -
  have missing: "get_prop ask_no_prompt ''operation'' = JStr ''ask''"
    "\<not> truthy (get_prop ask_no_prompt ''prompt'')"
    "get_prop ask_no_prompt ''prompt'' = JUndefined"
    by (simp_all add: ask_no_prompt_def)
  have empty: "get_prop ask_empty_prompt ''operation'' = JStr ''ask''"
    "\<not> truthy (get_prop ask_empty_prompt ''prompt'')"
    "get_prop ask_empty_prompt ''prompt'' = JStr []"
    by (simp_all add: ask_empty_prompt_def)
  from ask_without_prompt_rejected [OF missing(1,2), of quiet_env "''chatgpt''" just_dispatched]
       ask_without_prompt_rejected [OF empty(1,2), of quiet_env "''chatgpt''" just_dispatched]
       missing(3) empty(3)
  show ?thesis
    by (cases "call_tool quiet_env ''chatgpt'' ask_no_prompt just_dispatched";
        cases "call_tool quiet_env ''chatgpt'' ask_empty_prompt just_dispatched") simp
qed

section \<open>The timestamp\<close>

text \<open>
  Claim C6: in an \<open>ask\<close> dispatch that gets past the availability check,
  \<open>lastRequestTime\<close> is written once: the events of the dispatch are those up to the end
  of the wait, which hold no write, then the write of the clock's value at that moment,
  then the run of the interaction script, and the value stays after the script has
  returned. Nothing else writes it: not an \<open>ask\<close> whose availability check fails, and not
  \<open>getConversations\<close>.
\<close>

theorem timestamp_written_once_before_interaction:
  "(fst (checkChatGPTAccess env s) = Inr ok \<longrightarrow>
      (let s2 = waitForRateLimit env d (snd (checkChatGPTAccess env s));
           s' = snd (askChatGPT env p c d s)
       in events s' = events s2 @ [SetLastRequestTime (clock s2), RunScript (ask_script p c)]
          \<and> lastRequestTime s' = clock s2
          \<and> lastRequestTime s2 = lastRequestTime s
          \<and> filter is_SetLastRequestTime (events s2) = filter is_SetLastRequestTime (events s)))
   \<and> (fst (checkChatGPTAccess env s) = Inl m \<longrightarrow>
        lastRequestTime (snd (askChatGPT env p c d s)) = lastRequestTime s
        \<and> filter is_SetLastRequestTime (events (snd (askChatGPT env p c d s)))
            = filter is_SetLastRequestTime (events s))
   \<and> lastRequestTime (snd (getConversations env s)) = lastRequestTime s
   \<and> filter is_SetLastRequestTime (events (snd (getConversations env s)))
       = filter is_SetLastRequestTime (events s)"
proof (intro conjI impI)
  assume ok: "fst (checkChatGPTAccess env s) = Inr ok"
  show "let s2 = waitForRateLimit env d (snd (checkChatGPTAccess env s));
            s' = snd (askChatGPT env p c d s)
        in events s' = events s2 @ [SetLastRequestTime (clock s2), RunScript (ask_script p c)]
           \<and> lastRequestTime s' = clock s2
           \<and> lastRequestTime s2 = lastRequestTime s
           \<and> filter is_SetLastRequestTime (events s2) = filter is_SetLastRequestTime (events s)"
    by (simp add: askChatGPT_available [OF ok] Let_def waitForRateLimit_lastRequestTime
          waitForRateLimit_no_write checkChatGPTAccess_lastRequestTime checkChatGPTAccess_no_write)
next
  assume bad: "fst (checkChatGPTAccess env s) = Inl m"
  show "lastRequestTime (snd (askChatGPT env p c d s)) = lastRequestTime s"
    by (simp add: askChatGPT_unavailable [OF bad] checkChatGPTAccess_lastRequestTime)
  show "filter is_SetLastRequestTime (events (snd (askChatGPT env p c d s)))
          = filter is_SetLastRequestTime (events s)"
    by (simp add: askChatGPT_unavailable [OF bad] checkChatGPTAccess_no_write)
next
  show "lastRequestTime (snd (getConversations env s)) = lastRequestTime s"
    by (cases "fst (checkChatGPTAccess env s)")
       (simp_all add: getConversations_unavailable getConversations_available Let_def
          checkChatGPTAccess_lastRequestTime)
  show "filter is_SetLastRequestTime (events (snd (getConversations env s)))
          = filter is_SetLastRequestTime (events s)"
    by (cases "fst (checkChatGPTAccess env s)")
       (simp_all add: getConversations_unavailable getConversations_available Let_def
          checkChatGPTAccess_no_write)
qed

theorem timestamp_written_once_before_interaction_witness:
  "fst (checkChatGPTAccess failing_script_env just_dispatched) = Inr True
   \<and> snd (askChatGPT failing_script_env ''hi'' None None just_dispatched)
       = \<lparr>lastRequestTime = 620000, clock = 620007,
          events = [RunScript ExistsScript, Sleep 119993, SetLastRequestTime 620000,
                    RunScript (AskScript None ''hi'')]\<rparr>
   \<and> fst (checkChatGPTAccess unreachable_env just_dispatched) = Inl (cannot_access ''bridge down'')
   \<and> snd (askChatGPT unreachable_env ''hi'' None None just_dispatched)
       = \<lparr>lastRequestTime = 500000, clock = 500000, events = [RunScript ExistsScript]\<rparr>
   \<and> lastRequestTime (snd (getConversations failing_script_env just_dispatched)) = 500000"
proof -
  have up: "fst (checkChatGPTAccess failing_script_env just_dispatched) = Inr True"
    by (simp add: checkChatGPTAccess_def runAppleScript_def failing_script_env_def)
  have down: "fst (checkChatGPTAccess unreachable_env just_dispatched)
                = Inl (cannot_access ''bridge down'')"
    by (simp add: checkChatGPTAccess_def runAppleScript_def unreachable_env_def)
  have ran: "snd (askChatGPT failing_script_env ''hi'' None None just_dispatched)
       = \<lparr>lastRequestTime = 620000, clock = 620007,
          events = [RunScript ExistsScript, Sleep 119993, SetLastRequestTime 620000,
                    RunScript (AskScript None ''hi'')]\<rparr>"
    by (simp add: run_defs example_defs)
  have stopped: "snd (askChatGPT unreachable_env ''hi'' None None just_dispatched)
       = \<lparr>lastRequestTime = 500000, clock = 500000, events = [RunScript ExistsScript]\<rparr>"
    by (simp add: run_defs example_defs)
  have last: "lastRequestTime just_dispatched = 500000"
    by (simp add: just_dispatched_def)
  from timestamp_written_once_before_interaction
         [of failing_script_env just_dispatched True None "''hi''" None]
       up down ran stopped last
  show ?thesis by simp
qed

text \<open>
  Claim C10: the availability check succeeds and the interaction script fails. The
  call fails with the script's message, \<open>lastRequestTime\<close> holds the clock's value at the
  end of the wait, and the state the call leaves is the state it leaves in the world
  where the same script succeeds with any result \<open>r\<close>: whatever comes next meets the
  same timestamp and the same clock.
\<close>

theorem failed_interaction_keeps_timestamp:
  assumes "fst (checkChatGPTAccess env s) = Inr ok"
    and "osa env (ask_script p c) = Inl e"
  shows "fst (askChatGPT env p c d s) = Inl (''Failed to get response from ChatGPT: '' @ e)
         \<and> lastRequestTime (snd (askChatGPT env p c d s))
             = clock (waitForRateLimit env d (snd (checkChatGPTAccess env s)))
         \<and> snd (askChatGPT env p c d s)
             = snd (askChatGPT (env\<lparr>osa := (osa env)(ask_script p c := Inr r)\<rparr>) p c d s)"
proof -
  let ?env' = "env\<lparr>osa := (osa env)(ask_script p c := Inr r)\<rparr>"
  have probe: "runAppleScript ?env' ExistsScript s1 = runAppleScript env ExistsScript s1" for s1
    by (simp add: runAppleScript_def ask_script_def)
  have launch: "runAppleScript ?env' LaunchScript s1 = runAppleScript env LaunchScript s1" for s1
    by (simp add: runAppleScript_def ask_script_def)
  have same: "checkChatGPTAccess ?env' s = checkChatGPTAccess env s"
    by (simp add: checkChatGPTAccess_def probe launch split: prod.splits sum.splits)
  have wait: "waitForRateLimit ?env' d s1 = waitForRateLimit env d s1" for s1
    by (simp add: waitForRateLimit_def sleep_def Let_def)
  from assms(1) have ok': "fst (checkChatGPTAccess ?env' s) = Inr ok"
    by (simp add: same)
  show ?thesis
    using assms(2)
    by (simp add: askChatGPT_available [OF assms(1)] askChatGPT_available [OF ok'] same wait
          Let_def)
qed

theorem failed_interaction_keeps_timestamp_witness:
  "fst (checkChatGPTAccess failing_script_env just_dispatched) = Inr True
   \<and> osa failing_script_env (ask_script ''hi'' None) = Inl ''script error''
   \<and> fst (askChatGPT failing_script_env ''hi'' None None just_dispatched)
       = Inl ''Failed to get response from ChatGPT: script error''
   \<and> lastRequestTime (snd (askChatGPT failing_script_env ''hi'' None None just_dispatched)) = 620000
   \<and> snd (askChatGPT failing_script_env ''hi'' None None just_dispatched)
       = snd (askChatGPT
                (failing_script_env
                   \<lparr>osa := (osa failing_script_env)(ask_script ''hi'' None := Inr ''hello'')\<rparr>)
                ''hi'' None None just_dispatched)"
proof -
  have up: "fst (checkChatGPTAccess failing_script_env just_dispatched) = Inr True"
    by (simp add: checkChatGPTAccess_def runAppleScript_def failing_script_env_def)
  have fails: "osa failing_script_env (ask_script ''hi'' None) = Inl ''script error''"
    by (simp add: failing_script_env_def ask_script_def)
  have waited: "clock (waitForRateLimit failing_script_env None
                         (snd (checkChatGPTAccess failing_script_env just_dispatched))) = 620000"
    by (simp add: run_defs example_defs)
  note kept = failed_interaction_keeps_timestamp [OF up fails, of None "''hello''"]
  show ?thesis
  proof (intro conjI)
    show "fst (checkChatGPTAccess failing_script_env just_dispatched) = Inr True"
      by (rule up)
    show "osa failing_script_env (ask_script ''hi'' None) = Inl ''script error''"
      by (rule fails)
    from kept show "fst (askChatGPT failing_script_env ''hi'' None None just_dispatched)
                      = Inl ''Failed to get response from ChatGPT: script error''"
      by simp
    from kept waited
    show "lastRequestTime (snd (askChatGPT failing_script_env ''hi'' None None just_dispatched))
            = 620000"
      by (elim conjE) (simp only:)
    from kept
    show "snd (askChatGPT failing_script_env ''hi'' None None just_dispatched)
            = snd (askChatGPT
                     (failing_script_env
                        \<lparr>osa := (osa failing_script_env)(ask_script ''hi'' None := Inr ''hello'')\<rparr>)
                     ''hi'' None None just_dispatched)"
      by (elim conjE)
  qed
qed

section \<open>A negative delay\<close>

text \<open>
  While no script takes negative time, handling a request leaves the clock at or after
  \<open>lastRequestTime\<close> if it was so before.
\<close>

lemma askChatGPT_clock_ahead:
  assumes "\<forall>scr. 0 \<le> script_ms env scr" and "lastRequestTime s \<le> clock s"
  shows "lastRequestTime (snd (askChatGPT env p c d s)) \<le> clock (snd (askChatGPT env p c d s))"
proof (cases "fst (checkChatGPTAccess env s)")
  case (Inl m)
  with assms checkChatGPTAccess_clock [OF assms(1), of s] show ?thesis
    by (simp add: askChatGPT_unavailable checkChatGPTAccess_lastRequestTime)
next
  case (Inr ok)
  with assms(1) show ?thesis
    by (simp add: askChatGPT_available Let_def)
qed

lemma getConversations_clock_ahead:
  assumes "\<forall>scr. 0 \<le> script_ms env scr" and "lastRequestTime s \<le> clock s"
  shows "lastRequestTime (snd (getConversations env s)) \<le> clock (snd (getConversations env s))"
proof (cases "fst (checkChatGPTAccess env s)")
  case (Inl m)
  with assms checkChatGPTAccess_clock [OF assms(1), of s] show ?thesis
    by (simp add: getConversations_unavailable checkChatGPTAccess_lastRequestTime)
next
  case (Inr ok)
  with assms checkChatGPTAccess_clock [OF assms(1), of s] show ?thesis
    by (simp add: getConversations_available Let_def checkChatGPTAccess_lastRequestTime
          add_increasing2)
qed

lemma call_tool_clock_ahead:
  assumes "\<forall>scr. 0 \<le> script_ms env scr" and "lastRequestTime s \<le> clock s"
  shows "lastRequestTime (snd (call_tool env name args s)) \<le> clock (snd (call_tool env name args s))"
  using assms askChatGPT_clock_ahead [OF assms, of "as_string (get_prop args ''prompt'')"
          "as_optional_string (get_prop args ''conversation_id'')"
          "as_optional_number (get_prop args ''delay_ms'')"]
        getConversations_clock_ahead [OF assms]
  by (auto simp add: call_tool_def call_tool_body_def split: prod.splits sum.splits)

text \<open>
  Claim C9, as stated: an \<open>ask\<close> request with a negative \<open>delay_ms\<close> passes validation and
  the limiter never suspends it, because elapsed time is never below a negative
  interval. The limiter compares \<open>Date.now() - lastRequestTime\<close> with the interval and
  nothing keeps that difference from being negative: with the clock ten milliseconds
  behind the timestamp and \<open>delay_ms = -5\<close>, the request passes validation and sleeps
  for five milliseconds.
\<close>

theorem negative_delay_clock_behind_counterexample:
  "isChatGPTArgs ask_negative_delay
   \<and> events (snd (call_tool quiet_env ''chatgpt'' ask_negative_delay clock_set_back))
       = [RunScript ExistsScript, Sleep 5, SetLastRequestTime 500005,
          RunScript (AskScript None ''hi'')]"
  by (simp add: run_defs example_defs clock_set_back_def)

text \<open>
  Claim C9, amended: an \<open>ask\<close> request with a non-empty prompt, a conversation id that
  is absent or a string, and a negative number as \<open>delay_ms\<close> passes validation. The
  limiter called with that interval sleeps exactly when the elapsed time is below it,
  for the interval less the elapsed time, and otherwise leaves the state as it is. So
  when the clock the limiter reads is not behind \<open>lastRequestTime\<close>, handling the
  request adds no sleep to the events, however recent the last dispatch.
\<close>

theorem negative_delay_waits_only_behind_clock:
  assumes "get_prop args ''operation'' = JStr ''ask''"
    and "get_prop args ''prompt'' = JStr p" and "p \<noteq> []"
    and "\<not> truthy (get_prop args ''conversation_id'')
         \<or> typeof (get_prop args ''conversation_id'') = ''string''"
    and "get_prop args ''delay_ms'' = JNum d" and "d < 0"
  shows "isChatGPTArgs args
         \<and> (\<forall>s1. waitForRateLimit env (Some d) s1
                  = (if clock s1 - lastRequestTime s1 < d
                     then sleep env (d - (clock s1 - lastRequestTime s1)) s1
                     else s1))
         \<and> (lastRequestTime s \<le> clock (snd (checkChatGPTAccess env s)) \<longrightarrow>
              filter is_Sleep (events (snd (call_tool env ''chatgpt'' args s)))
                = filter is_Sleep (events s))"
proof (intro conjI allI impI)
  from assms(1) obtain kvs where "args = JObj kvs"
    by (cases args) simp_all
  with assms show valid: "isChatGPTArgs args"
    by (auto simp add: isChatGPTArgs_def Let_def)
  show "waitForRateLimit env (Some d) s1
          = (if clock s1 - lastRequestTime s1 < d
             then sleep env (d - (clock s1 - lastRequestTime s1)) s1
             else s1)" for s1
    using assms(6) by (simp add: waitForRateLimit_def delay_or_default_def)
  assume ahead: "lastRequestTime s \<le> clock (snd (checkChatGPTAccess env s))"
  let ?s1 = "snd (checkChatGPTAccess env s)"
  from ahead assms(6) have nowait: "waitForRateLimit env (Some d) ?s1 = ?s1"
    by (simp add: waitForRateLimit_def delay_or_default_def checkChatGPTAccess_lastRequestTime)
  show "filter is_Sleep (events (snd (call_tool env ''chatgpt'' args s)))
          = filter is_Sleep (events s)"
  proof (cases "fst (checkChatGPTAccess env s)")
    case (Inl m)
    then show ?thesis
      using valid assms(1)
      by (simp add: call_tool_ask askChatGPT_unavailable checkChatGPTAccess_no_sleep)
  next
    case (Inr ok)
    then show ?thesis
      using valid assms(1,5) nowait
      by (simp add: call_tool_ask askChatGPT_available Let_def checkChatGPTAccess_no_sleep
            split: sum.splits)
  qed
qed

theorem negative_delay_waits_only_behind_clock_witness:
  "get_prop ask_negative_delay ''delay_ms'' = JNum (- 5)
   \<and> isChatGPTArgs ask_negative_delay
   \<and> lastRequestTime just_dispatched
       = clock (snd (checkChatGPTAccess quiet_env just_dispatched))
   \<and> filter is_Sleep (events (snd (call_tool quiet_env ''chatgpt'' ask_negative_delay just_dispatched)))
       = []
   \<and> waitForRateLimit quiet_env (Some (- 5)) just_dispatched = just_dispatched
   \<and> waitForRateLimit quiet_env (Some (- 5)) clock_set_back = sleep quiet_env 5 clock_set_back"
proof -
  have fields: "get_prop ask_negative_delay ''operation'' = JStr ''ask''"
    "get_prop ask_negative_delay ''prompt'' = JStr ''hi''" "''hi'' \<noteq> []"
    "\<not> truthy (get_prop ask_negative_delay ''conversation_id'')
       \<or> typeof (get_prop ask_negative_delay ''conversation_id'') = ''string''"
    "get_prop ask_negative_delay ''delay_ms'' = JNum (- 5)" "(- 5 :: int) < 0"
    by (simp_all add: ask_negative_delay_def)
  have same: "lastRequestTime just_dispatched
                = clock (snd (checkChatGPTAccess quiet_env just_dispatched))"
    by (simp add: checkChatGPTAccess_def runAppleScript_def quiet_env_def just_dispatched_def)
  have none: "filter is_Sleep (events just_dispatched) = []"
    and level: "clock just_dispatched - lastRequestTime just_dispatched = 0"
    and behind: "clock clock_set_back - lastRequestTime clock_set_back = - 10"
    by (simp_all add: just_dispatched_def clock_set_back_def)
  from negative_delay_waits_only_behind_clock
         [OF fields, of quiet_env just_dispatched] fields(5) same none level behind
  show ?thesis by simp
qed

section \<open>Quotes in the prompt\<close>

text \<open>Every double quote of the prompt goes out with a backslash put before it.\<close>

lemma escape_quotes_quote:
  "escape_quotes (a @ dquote # b) = escape_quotes a @ [backslash, dquote] @ escape_quotes b"
  by (simp add: escape_quotes_def)

lemma after_literal_plain:
  "c \<noteq> dquote \<Longrightarrow> c \<noteq> backslash \<Longrightarrow> rest \<noteq> [] \<Longrightarrow> after_literal (c # rest) = after_literal rest"
  by (cases rest) simp_all

text \<open>A prompt with no backslash in it stays inside its literal, quotes or not.\<close>

lemma stays_literal_without_backslash:
  "backslash \<notin> set prompt \<Longrightarrow> stays_literal prompt"
  unfolding stays_literal_def keystroke_argument_def
proof (induction prompt)
  case Nil
  then show ?case by (simp add: escape_quotes_def)
next
  case (Cons c prompt)
  then have ih: "after_literal (escape_quotes prompt @ [dquote]) = Some []" by simp
  from Cons.prems have nb: "c \<noteq> backslash" by auto
  show ?case
  proof (cases "c = dquote")
    case True
    then have "escape_quotes (c # prompt) @ [dquote]
                 = backslash # dquote # (escape_quotes prompt @ [dquote])"
      by (simp add: escape_quotes_def)
    with ih show ?thesis by (simp add: dquote_def backslash_def)
  next
    case False
    then have "escape_quotes (c # prompt) @ [dquote] = c # (escape_quotes prompt @ [dquote])"
      by (simp add: escape_quotes_def)
    with ih False nb show ?thesis by (simp add: after_literal_plain)
  qed
qed

text \<open>
  Claim C7: every double quote of the prompt reaches the adapter escaped, so that none
  ends the scripted command early. The replacement leaves backslashes alone: for the
  prompt of a backslash and a double quote, the script holds two backslashes and a
  quote; the two backslashes read as one escaped backslash, and the quote after them
  ends the literal, with the template's own closing quote left over.
\<close>

theorem backslash_quote_ends_literal_early:
  "ask_script [backslash, dquote] None = AskScript None [backslash, backslash, dquote]
   \<and> after_literal (keystroke_argument [backslash, dquote]) = Some [dquote]
   \<and> \<not> stays_literal [backslash, dquote]"
  by (simp add: ask_script_def escape_quotes_def keystroke_argument_def stays_literal_def
        dquote_def backslash_def)

section \<open>The list of conversations\<close>

lemma collect_names_filter:
  "collect_names acc names = acc @ filter (\<lambda>n. is_not_text n ''New chat'') names"
  by (induction names arbitrary: acc) simp_all

lemma split_comma_whole:
  "\<not> includes_str x '', '' \<Longrightarrow> split_comma cur x = [cur @ x]"
proof (induction cur x rule: split_comma.induct)
  case (1 cur)
  then show ?case by simp
next
  case (2 cur c)
  then show ?case by simp
next
  case (3 cur c d ds)
  then show ?case by auto
qed

lemma split_comma_first:
  "\<not> includes_str x '', '' \<Longrightarrow>
   split_comma cur (x @ CHR '','' # CHR '' '' # rest) = (cur @ x) # split_comma [] rest"
proof (induction x arbitrary: cur)
  case Nil
  then show ?case by simp
next
  case (Cons c x)
  then have ih: "split_comma (cur @ [c]) (x @ CHR '','' # CHR '' '' # rest)
                   = (cur @ [c] @ x) # split_comma [] rest"
    by simp
  show ?case
  proof (cases x)
    case Nil
    with ih show ?thesis by simp
  next
    case (Cons d ds)
    with Cons.prems ih show ?thesis by auto
  qed
qed

lemma split_comma_print_list:
  "xs \<noteq> [] \<Longrightarrow> \<forall>x \<in> set xs. \<not> includes_str x '', '' \<Longrightarrow> split_comma [] (print_list xs) = xs"
proof (induction xs rule: print_list.induct)
  case 1
  then show ?case by simp
next
  case (2 x)
  then show ?case by (simp add: split_comma_whole)
next
  case (3 x y ys)
  then show ?case by (simp add: split_comma_first)
qed

text \<open>
  Where at least one button is kept and no kept name holds a comma followed by a space,
  the names come back as the script collected them: those of the buttons that are not
  the new-chat button, in the buttons' order.
\<close>

lemma getConversations_lists_names:
  assumes "fst (checkChatGPTAccess env s) = Inr ok"
    and "osa env ListScript = list_script_run u"
    and "activate u = None" and "buttons u = Inr names"
    and "kept = filter (\<lambda>n. is_not_text n ''New chat'') names"
    and "kept \<noteq> []" and "\<forall>n \<in> set kept. \<not> includes_str n '', ''"
  shows "fst (getConversations env s) = Inr kept"
  using assms
  by (simp add: getConversations_available list_script_run_def collect_names_filter
        split_comma_print_list Let_def)

text \<open>
  Claim C8: the names returned are exactly those of the elements that are not the
  new-chat button, in order, and the result may be empty. The names travel as one text,
  joined by comma-space and split again. With the new-chat button alone in the window
  the text is empty, and splitting it gives one empty name, not none: the handler
  reports one conversation. A title that holds a comma and a space comes back as two
  names.
\<close>

theorem listing_loses_the_names:
  "fst (getConversations (scripted_env silent_ui) (initial_state 500000)) = Inr [[]]
   \<and> fst (call_tool (scripted_env silent_ui) ''chatgpt'' list_request (initial_state 500000))
       = \<lparr>content_text = ''Found 1 conversation(s):'' @ [newline, newline], isError = False\<rparr>
   \<and> fst (getConversations (scripted_env titled_ui) (initial_state 500000))
       = Inr [''Plan'', ''draft'']"
  by (simp add: run_defs example_defs list_script_run_def is_not_text_def lower_ascii_def
        show_nat.simps digit_char_def)

end
